theory Spec2Isabelle
  imports Main
begin

section \<open>Platform classification of \<open>base/port.h\<close>\<close>

subsection \<open>The platform enumeration\<close>

text \<open>
  \<open>enum class PlatformType\<close> (port.h, lines 40-48): a mutually exclusive list of
  target platforms, in the order of the source.
\<close>

datatype PlatformType =
    kWindows
  | kLinux
  | kOSX
  | kAndroid
  | kIPhone
  | kWASM
  | kChromeOS

subsection \<open>The build environment\<close>

text \<open>
  The preprocessor state that lines 51-73 consult. A field tested with
  \<open>defined(...)\<close> is a boolean (is the macro defined); a field tested with
  \<open>#if X\<close> is the integer the macro evaluates to, 0 when the macro is not
  defined. The fields carry the macros' names without their underscores:
  \<open>__linux__\<close>, \<open>__ANDROID__\<close>, \<open>OS_CHROMEOS\<close>, \<open>_WIN32\<close>, \<open>__APPLE__\<close>,
  \<open>TARGET_OS_OSX\<close>, \<open>TARGET_OS_IPHONE\<close>, \<open>__wasm__\<close>. The two
  \<open>TARGET_OS\<close> macros come from \<open>TargetConditionals.h\<close>, which is not part of
  the repository, so their values are parameters here.
\<close>

record build_env =
  linux :: bool
  ANDROID :: bool
  OS_CHROMEOS :: bool
  WIN32 :: bool
  APPLE :: bool
  TARGET_OS_OSX :: int
  TARGET_OS_IPHONE :: int
  wasm :: bool

subsection \<open>The resolver\<close>

text \<open>
  A \<open>#error\<close> directive stops the build with its message; the model returns the
  message on the left of a sum, the platform constant on the right.
\<close>

type_synonym diagnostic = string

text \<open>
  \<open>kTargetPlatform\<close> (port.h, lines 51-73): the nested
  \<open>#if\<close>/\<open>#elif\<close>/\<open>#else\<close> chain, branch by branch.
\<close>

definition kTargetPlatform :: "build_env \<Rightarrow> diagnostic + PlatformType" where
  "kTargetPlatform env =
    (if linux env then
       (if ANDROID env then Inr kAndroid
        else if OS_CHROMEOS env then Inr kChromeOS
        else Inr kLinux)
     else if WIN32 env then Inr kWindows
     else if APPLE env then
       (if TARGET_OS_OSX env \<noteq> 0 then Inr kOSX
        else if TARGET_OS_IPHONE env \<noteq> 0 then Inr kIPhone
        else Inl ''Unsupported Apple platform target.'')
     else if wasm env then Inr kWASM
     else Inl ''Unsupported target platform.'')"

subsection \<open>The predicates\<close>

text \<open>
  The eight \<open>constexpr bool TargetIs...()\<close> functions (port.h, lines 113-160).
  Each compares the constant \<open>kTargetPlatform\<close> with enumerators; the model takes
  the value of that constant as its argument.
\<close>

definition TargetIsWindows :: "PlatformType \<Rightarrow> bool" where
  "TargetIsWindows p \<longleftrightarrow> p = kWindows"

definition TargetIsLinux :: "PlatformType \<Rightarrow> bool" where
  "TargetIsLinux p \<longleftrightarrow> p = kLinux \<or> p = kAndroid \<or> p = kChromeOS"

definition TargetIsAndroid :: "PlatformType \<Rightarrow> bool" where
  "TargetIsAndroid p \<longleftrightarrow> p = kAndroid"

definition TargetIsDarwin :: "PlatformType \<Rightarrow> bool" where
  "TargetIsDarwin p \<longleftrightarrow> p = kOSX \<or> p = kIPhone"

definition TargetIsOSX :: "PlatformType \<Rightarrow> bool" where
  "TargetIsOSX p \<longleftrightarrow> p = kOSX"

definition TargetIsIPhone :: "PlatformType \<Rightarrow> bool" where
  "TargetIsIPhone p \<longleftrightarrow> p = kIPhone"

definition TargetIsWASM :: "PlatformType \<Rightarrow> bool" where
  "TargetIsWASM p \<longleftrightarrow> p = kWASM"

definition TargetIsChromeOS :: "PlatformType \<Rightarrow> bool" where
  "TargetIsChromeOS p \<longleftrightarrow> p = kChromeOS"

subsection \<open>The specification's view of the resolver\<close>

text \<open>
  The build-environment markers of the specification, and which of them a build
  environment sets. A sub-target marker tested with \<open>#if\<close> is set when its macro
  evaluates to a non-zero value.
\<close>

datatype marker =
    LinuxFamily
  | Android
  | ChromeOS
  | Windows
  | AppleFamily
  | MacOS
  | IPhone
  | WebAssembly

fun has_marker :: "build_env \<Rightarrow> marker \<Rightarrow> bool" where
  "has_marker env LinuxFamily = linux env"
| "has_marker env Android = ANDROID env"
| "has_marker env ChromeOS = OS_CHROMEOS env"
| "has_marker env Windows = WIN32 env"
| "has_marker env AppleFamily = APPLE env"
| "has_marker env MacOS = (TARGET_OS_OSX env \<noteq> 0)"
| "has_marker env IPhone = (TARGET_OS_IPHONE env \<noteq> 0)"
| "has_marker env WebAssembly = wasm env"

definition all_markers :: "marker list" where
  "all_markers =
    [LinuxFamily, Android, ChromeOS, Windows, AppleFamily, MacOS, IPhone, WebAssembly]"

definition markers :: "build_env \<Rightarrow> marker set" where
  "markers env = set (filter (has_marker env) all_markers)"

text \<open>
  A build environment that sets exactly the markers of a given set: the
  \<open>#if\<close>-tested macros are 1 when set and 0 otherwise.
\<close>

definition env_of :: "marker set \<Rightarrow> build_env" where
  "env_of S =
    \<lparr> linux = (LinuxFamily \<in> S), ANDROID = (Android \<in> S), OS_CHROMEOS = (ChromeOS \<in> S),
      WIN32 = (Windows \<in> S), APPLE = (AppleFamily \<in> S),
      TARGET_OS_OSX = (if MacOS \<in> S then 1 else 0),
      TARGET_OS_IPHONE = (if IPhone \<in> S then 1 else 0),
      wasm = (WebAssembly \<in> S) \<rparr>"

text \<open>
  The outcome of a resolution as the specification has it: one platform kind, or the
  single build failure \<open>UnsupportedPlatform\<close>.
\<close>

datatype outcome = Resolved PlatformType | UnsupportedPlatform

fun outcome_of :: "diagnostic + PlatformType \<Rightarrow> outcome" where
  "outcome_of (Inr p) = Resolved p"
| "outcome_of (Inl d) = UnsupportedPlatform"

text \<open>
  Section 4.1 of the specification, written after its words as a list of rules in
  priority order: the markers a rule asks for, and its outcome. The first rule all of
  whose markers are set decides; \<open>None\<close> would be a marker set that no rule matches.
\<close>

type_synonym rule = "marker set \<times> outcome"

definition spec_rules :: "rule list" where
  "spec_rules =
    [({LinuxFamily, Android}, Resolved kAndroid),
     ({LinuxFamily, ChromeOS}, Resolved kChromeOS),
     ({LinuxFamily}, Resolved kLinux),
     ({Windows}, Resolved kWindows),
     ({AppleFamily, MacOS}, Resolved kOSX),
     ({AppleFamily, IPhone}, Resolved kIPhone),
     ({AppleFamily}, UnsupportedPlatform),
     ({WebAssembly}, Resolved kWASM),
     ({}, UnsupportedPlatform)]"

fun first_match :: "marker set \<Rightarrow> rule list \<Rightarrow> outcome option" where
  "first_match S [] = None"
| "first_match S ((req, out) # rs) =
     (if req \<subseteq> S then Some out else first_match S rs)"

definition spec_resolver :: "marker set \<Rightarrow> outcome option" where
  "spec_resolver S = first_match S spec_rules"

text \<open>
  A supported build configuration, in the specification's sense: a marker set whose
  first matching rule yields a platform kind.
\<close>

definition supported :: "marker set \<Rightarrow> bool" where
  "supported S =
    (case spec_resolver S of
       Some (Resolved p) \<Rightarrow> True
     | Some UnsupportedPlatform \<Rightarrow> False
     | None \<Rightarrow> False)"

subsection \<open>Some build environments\<close>

text \<open>
  \<open>__linux__\<close> and \<open>__APPLE__\<close> both defined, no sub-target macro set.
\<close>

definition linux_apple_env :: build_env where
  "linux_apple_env =
    \<lparr> linux = True, ANDROID = False, OS_CHROMEOS = False, WIN32 = False, APPLE = True,
      TARGET_OS_OSX = 0, TARGET_OS_IPHONE = 0, wasm = False \<rparr>"

text \<open>
  \<open>__linux__\<close> and \<open>__APPLE__\<close> both defined, \<open>TARGET_OS_OSX\<close> and
  \<open>TARGET_OS_IPHONE\<close> both 1.
\<close>

definition linux_apple_both_env :: build_env where
  "linux_apple_both_env =
    \<lparr> linux = True, ANDROID = False, OS_CHROMEOS = False, WIN32 = False, APPLE = True,
      TARGET_OS_OSX = 1, TARGET_OS_IPHONE = 1, wasm = False \<rparr>"

text \<open>
  \<open>__linux__\<close>, \<open>__ANDROID__\<close> and \<open>OS_CHROMEOS\<close> defined.
\<close>

definition android_chromeos_env :: build_env where
  "android_chromeos_env =
    \<lparr> linux = True, ANDROID = True, OS_CHROMEOS = True, WIN32 = False, APPLE = False,
      TARGET_OS_OSX = 0, TARGET_OS_IPHONE = 0, wasm = False \<rparr>"

text \<open>
  \<open>__APPLE__\<close> defined, \<open>TARGET_OS_OSX\<close> and \<open>TARGET_OS_IPHONE\<close> both 1.
\<close>

definition apple_both_env :: build_env where
  "apple_both_env =
    \<lparr> linux = False, ANDROID = False, OS_CHROMEOS = False, WIN32 = False, APPLE = True,
      TARGET_OS_OSX = 1, TARGET_OS_IPHONE = 1, wasm = False \<rparr>"

text \<open>
  A desktop Linux build, and a build with no macro of the chain defined.
\<close>

definition desktop_linux_env :: build_env where
  "desktop_linux_env =
    \<lparr> linux = True, ANDROID = False, OS_CHROMEOS = False, WIN32 = False, APPLE = False,
      TARGET_OS_OSX = 0, TARGET_OS_IPHONE = 0, wasm = False \<rparr>"

definition bare_env :: build_env where
  "bare_env =
    \<lparr> linux = False, ANDROID = False, OS_CHROMEOS = False, WIN32 = False, APPLE = False,
      TARGET_OS_OSX = 0, TARGET_OS_IPHONE = 0, wasm = False \<rparr>"

section \<open>Properties\<close>

subsection \<open>Shared facts\<close>

lemmas TargetIs_defs =
  TargetIsWindows_def TargetIsLinux_def TargetIsAndroid_def TargetIsDarwin_def
  TargetIsOSX_def TargetIsIPhone_def TargetIsWASM_def TargetIsChromeOS_def

lemma in_markers_iff: "m \<in> markers env \<longleftrightarrow> has_marker env m"
  by (cases m) (simp_all add: markers_def all_markers_def)

lemma markers_env_of: "markers (env_of S) = S"
proof (rule set_eqI)
  fix m
  show "m \<in> markers (env_of S) \<longleftrightarrow> m \<in> S"
    by (cases m) (simp_all add: in_markers_iff env_of_def)
qed

lemma every_platform_is_resolved: "\<exists>env. kTargetPlatform env = Inr p"
proof (cases p)
  case kWindows
  have "kTargetPlatform (env_of {Windows}) = Inr kWindows"
    by (simp add: kTargetPlatform_def env_of_def)
  with kWindows show ?thesis by blast
next
  case kLinux
  have "kTargetPlatform (env_of {LinuxFamily}) = Inr kLinux"
    by (simp add: kTargetPlatform_def env_of_def)
  with kLinux show ?thesis by blast
next
  case kOSX
  have "kTargetPlatform (env_of {AppleFamily, MacOS}) = Inr kOSX"
    by (simp add: kTargetPlatform_def env_of_def)
  with kOSX show ?thesis by blast
next
  case kAndroid
  have "kTargetPlatform (env_of {LinuxFamily, Android}) = Inr kAndroid"
    by (simp add: kTargetPlatform_def env_of_def)
  with kAndroid show ?thesis by blast
next
  case kIPhone
  have "kTargetPlatform (env_of {AppleFamily, IPhone}) = Inr kIPhone"
    by (simp add: kTargetPlatform_def env_of_def)
  with kIPhone show ?thesis by blast
next
  case kWASM
  have "kTargetPlatform (env_of {WebAssembly}) = Inr kWASM"
    by (simp add: kTargetPlatform_def env_of_def)
  with kWASM show ?thesis by blast
next
  case kChromeOS
  have "kTargetPlatform (env_of {LinuxFamily, ChromeOS}) = Inr kChromeOS"
    by (simp add: kTargetPlatform_def env_of_def)
  with kChromeOS show ?thesis by blast
qed

lemma spec_resolver_markers:
  "spec_resolver (markers env) = Some (outcome_of (kTargetPlatform env))"
  by (simp add: spec_resolver_def spec_rules_def kTargetPlatform_def in_markers_iff)

subsection \<open>The predicates and their membership sets\<close>

text \<open>
  Claim C2. Each of the eight predicates is true exactly on its documented membership
  set, for every value of the enumeration: \<open>TargetIsWindows\<close> on \<open>kWindows\<close>;
  \<open>TargetIsLinux\<close> on \<open>kLinux\<close>, \<open>kAndroid\<close> and \<open>kChromeOS\<close>; \<open>TargetIsAndroid\<close> on
  \<open>kAndroid\<close>; \<open>TargetIsDarwin\<close> on \<open>kOSX\<close> and \<open>kIPhone\<close>; \<open>TargetIsOSX\<close> on \<open>kOSX\<close>;
  \<open>TargetIsIPhone\<close> on \<open>kIPhone\<close>; \<open>TargetIsWASM\<close> on \<open>kWASM\<close>; \<open>TargetIsChromeOS\<close> on
  \<open>kChromeOS\<close>.
\<close>

theorem predicates_membership:
  "(TargetIsWindows p \<longleftrightarrow> p \<in> {kWindows}) \<and>
   (TargetIsLinux p \<longleftrightarrow> p \<in> {kLinux, kAndroid, kChromeOS}) \<and>
   (TargetIsAndroid p \<longleftrightarrow> p \<in> {kAndroid}) \<and>
   (TargetIsDarwin p \<longleftrightarrow> p \<in> {kOSX, kIPhone}) \<and>
   (TargetIsOSX p \<longleftrightarrow> p \<in> {kOSX}) \<and>
   (TargetIsIPhone p \<longleftrightarrow> p \<in> {kIPhone}) \<and>
   (TargetIsWASM p \<longleftrightarrow> p \<in> {kWASM}) \<and>
   (TargetIsChromeOS p \<longleftrightarrow> p \<in> {kChromeOS})"
  by (cases p) (simp_all add: TargetIs_defs)

subsection \<open>The resolver and the priority order of the specification\<close>

text \<open>
  Claim C1. The resolver follows the priority order of section 4.1: on every build
  environment its result is the outcome of the first rule whose markers are all set
  (Linux-family first, with Android before ChromeOS before desktop Linux; then
  Windows; then Apple-family, with macOS before iPhone-family before failure; then
  WebAssembly; failure otherwise), and every marker set is the marker set of some
  build environment.
\<close>

theorem resolver_follows_priority_order:
  "spec_resolver (markers env) = Some (outcome_of (kTargetPlatform env)) \<and>
   (\<exists>e. markers e = S \<and> spec_resolver S = Some (outcome_of (kTargetPlatform e)))"
proof
  show "spec_resolver (markers env) = Some (outcome_of (kTargetPlatform env))"
    by (rule spec_resolver_markers)
next
  have "markers (env_of S) = S"
    by (rule markers_env_of)
  moreover from this
  have "spec_resolver S = Some (outcome_of (kTargetPlatform (env_of S)))"
    using spec_resolver_markers [of "env_of S"] by simp
  ultimately
  show "\<exists>e. markers e = S \<and> spec_resolver S = Some (outcome_of (kTargetPlatform e))"
    by blast
qed

subsection \<open>Leaf cases and families\<close>

text \<open>
  Claim C3. For every value of the enumeration exactly one of the seven leaf cases
  holds (Windows, Android, OSX, iPhone, WASM, ChromeOS, or desktop Linux, that is
  \<open>TargetIsLinux\<close> without \<open>TargetIsAndroid\<close> and \<open>TargetIsChromeOS\<close>), and the two
  family predicates are true exactly on the declared members of their family.
\<close>

theorem exactly_one_leaf_case:
  "length (filter (\<lambda>b. b)
     [TargetIsWindows p, TargetIsAndroid p, TargetIsOSX p, TargetIsIPhone p,
      TargetIsWASM p, TargetIsChromeOS p,
      TargetIsLinux p \<and> \<not> TargetIsAndroid p \<and> \<not> TargetIsChromeOS p]) = 1 \<and>
   (TargetIsLinux p \<longleftrightarrow> p \<in> {kLinux, kAndroid, kChromeOS}) \<and>
   (TargetIsDarwin p \<longleftrightarrow> p \<in> {kOSX, kIPhone})"
  by (cases p) (simp_all add: TargetIs_defs)

text \<open>
  Claim C5. The family-membership implications: \<open>TargetIsAndroid\<close> and
  \<open>TargetIsChromeOS\<close> each imply \<open>TargetIsLinux\<close>; \<open>TargetIsOSX\<close> and
  \<open>TargetIsIPhone\<close> each imply \<open>TargetIsDarwin\<close>.
\<close>

theorem family_implications:
  "(TargetIsAndroid p \<longrightarrow> TargetIsLinux p) \<and>
   (TargetIsChromeOS p \<longrightarrow> TargetIsLinux p) \<and>
   (TargetIsOSX p \<longrightarrow> TargetIsDarwin p) \<and>
   (TargetIsIPhone p \<longrightarrow> TargetIsDarwin p)"
  by (simp add: TargetIs_defs)

theorem family_implications_witness:
  "TargetIsAndroid kAndroid \<and> TargetIsLinux kAndroid \<and>
   TargetIsChromeOS kChromeOS \<and> TargetIsLinux kChromeOS \<and>
   TargetIsOSX kOSX \<and> TargetIsDarwin kOSX \<and>
   TargetIsIPhone kIPhone \<and> TargetIsDarwin kIPhone"
proof -
  have a: "TargetIsAndroid kAndroid" by (simp add: TargetIsAndroid_def)
  have c: "TargetIsChromeOS kChromeOS" by (simp add: TargetIsChromeOS_def)
  have x: "TargetIsOSX kOSX" by (simp add: TargetIsOSX_def)
  have i: "TargetIsIPhone kIPhone" by (simp add: TargetIsIPhone_def)
  from a family_implications [of kAndroid] have "TargetIsLinux kAndroid" by blast
  moreover
  from c family_implications [of kChromeOS] have "TargetIsLinux kChromeOS" by blast
  moreover
  from x family_implications [of kOSX] have "TargetIsDarwin kOSX" by blast
  moreover
  from i family_implications [of kIPhone] have "TargetIsDarwin kIPhone" by blast
  ultimately show ?thesis using a c x i by blast
qed

text \<open>
  Claim C8. Overlaps between predicates are the sanctioned ones only:
  \<open>TargetIsLinux\<close> and \<open>TargetIsDarwin\<close> are never both true; a family predicate and
  a leaf predicate are both true only where the leaf is a declared member of the
  family (then exactly on that leaf's value); \<open>TargetIsWindows\<close> and \<open>TargetIsWASM\<close>
  are never true together with a family predicate.
\<close>

theorem sanctioned_overlaps_only:
  "\<not> (TargetIsLinux p \<and> TargetIsDarwin p) \<and>
   (TargetIsLinux p \<and> TargetIsAndroid p \<longleftrightarrow> p = kAndroid) \<and>
   (TargetIsLinux p \<and> TargetIsChromeOS p \<longleftrightarrow> p = kChromeOS) \<and>
   (TargetIsDarwin p \<and> TargetIsOSX p \<longleftrightarrow> p = kOSX) \<and>
   (TargetIsDarwin p \<and> TargetIsIPhone p \<longleftrightarrow> p = kIPhone) \<and>
   \<not> (TargetIsLinux p \<and> TargetIsOSX p) \<and>
   \<not> (TargetIsLinux p \<and> TargetIsIPhone p) \<and>
   \<not> (TargetIsDarwin p \<and> TargetIsAndroid p) \<and>
   \<not> (TargetIsDarwin p \<and> TargetIsChromeOS p) \<and>
   \<not> (TargetIsWindows p \<and> TargetIsLinux p) \<and>
   \<not> (TargetIsWindows p \<and> TargetIsDarwin p) \<and>
   \<not> (TargetIsWASM p \<and> TargetIsLinux p) \<and>
   \<not> (TargetIsWASM p \<and> TargetIsDarwin p)"
  by (cases p) (simp_all add: TargetIs_defs)

text \<open>
  Claim C9. Windows, the Linux family, the Darwin family and WASM partition the
  enumeration: exactly one of the four predicates holds of every value, and
  \<open>TargetIsLinux\<close> is true exactly when \<open>TargetIsWindows\<close>, \<open>TargetIsDarwin\<close> and
  \<open>TargetIsWASM\<close> are all false.
\<close>

theorem linux_family_is_complement:
  "(TargetIsLinux p \<longleftrightarrow>
      \<not> TargetIsWindows p \<and> \<not> TargetIsDarwin p \<and> \<not> TargetIsWASM p) \<and>
   length (filter (\<lambda>b. b)
     [TargetIsWindows p, TargetIsLinux p, TargetIsDarwin p, TargetIsWASM p]) = 1"
  by (cases p) (simp_all add: TargetIs_defs)

text \<open>
  Claim C10. The value is \<open>kLinux\<close> exactly when \<open>TargetIsLinux\<close> is true and
  \<open>TargetIsAndroid\<close> and \<open>TargetIsChromeOS\<close> are both false; and none of the eight
  predicates identifies \<open>kLinux\<close> on its own: each predicate, and each
  predicate's negation, differs from the test \<open>p = kLinux\<close> on some value.
\<close>

theorem desktop_linux_needs_conjunction:
  "(p = kLinux \<longleftrightarrow>
      TargetIsLinux p \<and> \<not> TargetIsAndroid p \<and> \<not> TargetIsChromeOS p) \<and>
   (TargetIsWindows kWindows \<noteq> (kWindows = kLinux)) \<and>
   (TargetIsLinux kAndroid \<noteq> (kAndroid = kLinux)) \<and>
   (TargetIsAndroid kAndroid \<noteq> (kAndroid = kLinux)) \<and>
   (TargetIsDarwin kOSX \<noteq> (kOSX = kLinux)) \<and>
   (TargetIsOSX kOSX \<noteq> (kOSX = kLinux)) \<and>
   (TargetIsIPhone kIPhone \<noteq> (kIPhone = kLinux)) \<and>
   (TargetIsWASM kWASM \<noteq> (kWASM = kLinux)) \<and>
   (TargetIsChromeOS kChromeOS \<noteq> (kChromeOS = kLinux)) \<and>
   ((\<not> TargetIsWindows kOSX) \<noteq> (kOSX = kLinux)) \<and>
   ((\<not> TargetIsLinux kOSX) \<noteq> (kOSX = kLinux)) \<and>
   ((\<not> TargetIsAndroid kOSX) \<noteq> (kOSX = kLinux)) \<and>
   ((\<not> TargetIsDarwin kWindows) \<noteq> (kWindows = kLinux)) \<and>
   ((\<not> TargetIsOSX kWindows) \<noteq> (kWindows = kLinux)) \<and>
   ((\<not> TargetIsIPhone kWindows) \<noteq> (kWindows = kLinux)) \<and>
   ((\<not> TargetIsWASM kWindows) \<noteq> (kWindows = kLinux)) \<and>
   ((\<not> TargetIsChromeOS kWindows) \<noteq> (kWindows = kLinux))"
  by (cases p) (simp_all add: TargetIs_defs)

subsection \<open>Totality, failure and precedence of the resolver\<close>

lemma supported_iff_resolved:
  "supported (markers env) \<longleftrightarrow> (\<exists>p. kTargetPlatform env = Inr p)"
proof (cases "kTargetPlatform env")
  case (Inl d)
  then show ?thesis
    by (simp add: supported_def spec_resolver_markers)
next
  case (Inr p)
  then show ?thesis
    by (simp add: supported_def spec_resolver_markers)
qed

text \<open>
  Claim C4. Resolution is total and unambiguous. Every build environment is matched by
  a rule of section 4.1 and the resolver returns a platform kind or a build failure
  on it; on a supported configuration the resolver yields exactly one platform kind,
  on any other the build fails; and no environment maps to two platform kinds.
\<close>

theorem resolution_total_unambiguous:
  "(\<exists>r. spec_resolver (markers env) = Some r) \<and>
   (isl (kTargetPlatform env) \<or> (\<exists>p. kTargetPlatform env = Inr p)) \<and>
   (supported (markers env) \<longrightarrow> (\<exists>!p. kTargetPlatform env = Inr p)) \<and>
   (\<not> supported (markers env) \<longrightarrow> isl (kTargetPlatform env)) \<and>
   (kTargetPlatform env = Inr p \<and> kTargetPlatform env = Inr q \<longrightarrow> p = q)"
proof (intro conjI impI)
  show "\<exists>r. spec_resolver (markers env) = Some r"
    by (simp add: spec_resolver_markers)
next
  show "isl (kTargetPlatform env) \<or> (\<exists>p. kTargetPlatform env = Inr p)"
    by (cases "kTargetPlatform env") simp_all
next
  assume "supported (markers env)"
  then obtain p where "kTargetPlatform env = Inr p"
    using supported_iff_resolved by blast
  then show "\<exists>!p. kTargetPlatform env = Inr p"
    by simp
next
  assume "\<not> supported (markers env)"
  then have "\<not> (\<exists>p. kTargetPlatform env = Inr p)"
    using supported_iff_resolved by blast
  then show "isl (kTargetPlatform env)"
    by (cases "kTargetPlatform env") simp_all
next
  assume "kTargetPlatform env = Inr p \<and> kTargetPlatform env = Inr q"
  then have "(Inr p :: diagnostic + PlatformType) = Inr q"
    by (elim conjE) (rule trans [OF sym])
  then show "p = q"
    by (rule Inr_inject)
qed

theorem resolution_total_unambiguous_witness:
  "supported (markers desktop_linux_env) \<and>
   (\<exists>!p. kTargetPlatform desktop_linux_env = Inr p) \<and>
   \<not> supported (markers bare_env) \<and>
   isl (kTargetPlatform bare_env) \<and>
   kTargetPlatform desktop_linux_env = Inr kLinux"
proof -
  have k: "kTargetPlatform desktop_linux_env = Inr kLinux"
    by (simp add: kTargetPlatform_def desktop_linux_env_def)
  have s: "supported (markers desktop_linux_env)"
    by (simp add: supported_def spec_resolver_def spec_rules_def in_markers_iff
        desktop_linux_env_def)
  have n: "\<not> supported (markers bare_env)"
    by (simp add: supported_def spec_resolver_def spec_rules_def in_markers_iff
        bare_env_def)
  from s resolution_total_unambiguous [of desktop_linux_env]
  have "\<exists>!p. kTargetPlatform desktop_linux_env = Inr p" by blast
  moreover
  from n resolution_total_unambiguous [of bare_env]
  have "isl (kTargetPlatform bare_env)" by blast
  ultimately show ?thesis using k s n by blast
qed

text \<open>
  Claim C6, as the code has it. The build fails exactly when neither
  \<open>__linux__\<close> nor \<open>_WIN32\<close> is defined and either \<open>__APPLE__\<close> is defined
  with \<open>TARGET_OS_OSX\<close> and \<open>TARGET_OS_IPHONE\<close> both zero, or neither
  \<open>__APPLE__\<close> nor \<open>__wasm__\<close> is defined; in every other case the resolver
  returns a platform kind.
\<close>

theorem build_failure_iff:
  "(isl (kTargetPlatform env) \<longleftrightarrow>
      (\<not> linux env \<and> \<not> WIN32 env \<and> APPLE env \<and>
         TARGET_OS_OSX env = 0 \<and> TARGET_OS_IPHONE env = 0) \<or>
      (\<not> linux env \<and> \<not> WIN32 env \<and> \<not> APPLE env \<and> \<not> wasm env)) \<and>
   ((\<exists>p. kTargetPlatform env = Inr p) \<longleftrightarrow>
      \<not> ((\<not> linux env \<and> \<not> WIN32 env \<and> APPLE env \<and>
            TARGET_OS_OSX env = 0 \<and> TARGET_OS_IPHONE env = 0) \<or>
         (\<not> linux env \<and> \<not> WIN32 env \<and> \<not> APPLE env \<and> \<not> wasm env)))"
  by (simp add: kTargetPlatform_def)

text \<open>
  The claim as stated, without the two conditions on \<open>__linux__\<close> and \<open>_WIN32\<close>,
  fails where \<open>__linux__\<close> and \<open>__APPLE__\<close> are both defined and no sub-target
  macro is set: the Apple condition of the claim holds and the resolver returns
  \<open>kLinux\<close>.
\<close>

theorem build_failure_iff_counterexample:
  "kTargetPlatform linux_apple_env = Inr kLinux \<and>
   APPLE linux_apple_env \<and>
   TARGET_OS_OSX linux_apple_env = 0 \<and>
   TARGET_OS_IPHONE linux_apple_env = 0 \<and>
   \<not> (isl (kTargetPlatform linux_apple_env) \<longleftrightarrow>
        (APPLE linux_apple_env \<and> TARGET_OS_OSX linux_apple_env = 0 \<and>
           TARGET_OS_IPHONE linux_apple_env = 0) \<or>
        (\<not> linux linux_apple_env \<and> \<not> WIN32 linux_apple_env \<and>
           \<not> APPLE linux_apple_env \<and> \<not> wasm linux_apple_env))"
  by (simp add: kTargetPlatform_def linux_apple_env_def)

text \<open>
  Claim C7, as the code has it. Where \<open>__linux__\<close>, \<open>__ANDROID__\<close> and
  \<open>OS_CHROMEOS\<close> are all defined the resolver yields \<open>kAndroid\<close>; where
  \<open>__APPLE__\<close> is defined, \<open>TARGET_OS_OSX\<close> and \<open>TARGET_OS_IPHONE\<close> are both
  non-zero and neither \<open>__linux__\<close> nor \<open>_WIN32\<close> is defined, it yields \<open>kOSX\<close>.
\<close>

theorem dual_marker_precedence:
  "(linux env \<and> ANDROID env \<and> OS_CHROMEOS env \<longrightarrow>
      kTargetPlatform env = Inr kAndroid) \<and>
   (\<not> linux env \<and> \<not> WIN32 env \<and> APPLE env \<and>
      TARGET_OS_OSX env \<noteq> 0 \<and> TARGET_OS_IPHONE env \<noteq> 0 \<longrightarrow>
      kTargetPlatform env = Inr kOSX)"
  by (simp add: kTargetPlatform_def)

theorem dual_marker_precedence_witness:
  "linux android_chromeos_env \<and> ANDROID android_chromeos_env \<and>
   OS_CHROMEOS android_chromeos_env \<and>
   kTargetPlatform android_chromeos_env = Inr kAndroid \<and>
   \<not> linux apple_both_env \<and> \<not> WIN32 apple_both_env \<and> APPLE apple_both_env \<and>
   TARGET_OS_OSX apple_both_env \<noteq> 0 \<and> TARGET_OS_IPHONE apple_both_env \<noteq> 0 \<and>
   kTargetPlatform apple_both_env = Inr kOSX"
proof -
  have a: "linux android_chromeos_env \<and> ANDROID android_chromeos_env \<and>
      OS_CHROMEOS android_chromeos_env"
    by (simp add: android_chromeos_env_def)
  have b: "\<not> linux apple_both_env \<and> \<not> WIN32 apple_both_env \<and> APPLE apple_both_env \<and>
      TARGET_OS_OSX apple_both_env \<noteq> 0 \<and> TARGET_OS_IPHONE apple_both_env \<noteq> 0"
    by (simp add: apple_both_env_def)
  from a dual_marker_precedence [of android_chromeos_env]
  have "kTargetPlatform android_chromeos_env = Inr kAndroid" by blast
  moreover
  from b dual_marker_precedence [of apple_both_env]
  have "kTargetPlatform apple_both_env = Inr kOSX" by blast
  ultimately show ?thesis using a b by blast
qed

text \<open>
  The claim as stated, for every marker set with the Apple-family marker and both
  sub-markers, fails where \<open>__linux__\<close> is defined too: the resolver returns
  \<open>kLinux\<close>, not \<open>kOSX\<close>.
\<close>

theorem dual_marker_precedence_counterexample:
  "APPLE linux_apple_both_env \<and>
   TARGET_OS_OSX linux_apple_both_env \<noteq> 0 \<and>
   TARGET_OS_IPHONE linux_apple_both_env \<noteq> 0 \<and>
   {AppleFamily, MacOS, IPhone} \<subseteq> markers linux_apple_both_env \<and>
   kTargetPlatform linux_apple_both_env = Inr kLinux \<and>
   kTargetPlatform linux_apple_both_env \<noteq> Inr kOSX"
  by (simp add: kTargetPlatform_def linux_apple_both_env_def in_markers_iff)

end
